theory Spec2Isabelle
  imports Main
begin

section \<open>Shell-style pattern matching\<close>

text \<open>
  The classifier calls Python's \<^verbatim>\<open>fnmatch.fnmatch(name, pattern)\<close>.  On a POSIX
  system the case normalisation is the identity, the pattern is translated into a
  regular expression by \<^verbatim>\<open>fnmatch.translate\<close> and the whole name must match it.
  The translation is modelled as a list of tokens; a string is a list of code points
  below 256.
\<close>

datatype tok =
    Star
  | AnyChar
  | Lit char
  | Never
  | CharSet bool "string list"

text \<open>Position of the first \<^verbatim>\<open>-\<close> in a string (\<^verbatim>\<open>str.find\<close>).\<close>

fun find_hyphen :: "string \<Rightarrow> nat option" where
  "find_hyphen [] = None"
| "find_hyphen (c # cs) =
     (if c = CHR ''-'' then Some 0
      else (case find_hyphen cs of None \<Rightarrow> None | Some m \<Rightarrow> Some (Suc m)))"

lemma find_hyphen_less: "find_hyphen s = Some m \<Longrightarrow> m < length s"
  by (induction s arbitrary: m) (auto split: if_splits option.splits)

text \<open>
  The body of a bracket expression is cut at every hyphen that stands between two
  range end points.  The search for the next hyphen starts \<open>k\<close> characters into the
  rest of the body: one (two after a leading \<^verbatim>\<open>!\<close>) at the beginning, and two after
  every hyphen found.  The last element of the result is the rest after the last cut.
\<close>

function split_chunks :: "string \<Rightarrow> nat \<Rightarrow> string list" where
  "split_chunks s k =
     (case find_hyphen (drop k s) of
        None \<Rightarrow> [s]
      | Some m \<Rightarrow> take (k + m) s # split_chunks (drop (Suc (k + m)) s) 2)"
  by pat_completeness auto
termination
proof (relation "measure (\<lambda>(s, k). length s)")
  show "wf (measure (\<lambda>(s, k). length s))" by simp
next
  fix s :: string and k m :: nat
  assume "find_hyphen (drop k s) = Some m"
  then have "m < length (drop k s)" by (rule find_hyphen_less)
  then show "((drop (Suc (k + m)) s, 2), (s, k)) \<in> measure (\<lambda>(s, k). length s)"
    by simp
qed

declare split_chunks.simps [simp del]

text \<open>An empty rest means the body ended in a hyphen, which then belongs to the chunk before.\<close>

definition close_chunks :: "string list \<Rightarrow> string list" where
  "close_chunks cs =
     (if cs \<noteq> [] \<and> last cs = [] \<and> butlast cs \<noteq> []
      then butlast (butlast cs) @ [last (butlast cs) @ ''-'']
      else cs)"

text \<open>
  Removal of empty ranges, from the right: when the last character of a chunk is above
  the first character of the next one, both end points are dropped and the two chunks
  are joined.
\<close>

fun merge_chunks :: "string list \<Rightarrow> string list" where
  "merge_chunks [] = []"
| "merge_chunks [c] = [c]"
| "merge_chunks (c # d # ds) =
     (case merge_chunks (d # ds) of
        [] \<Rightarrow> [c]
      | e # es \<Rightarrow>
          (if c \<noteq> [] \<and> e \<noteq> [] \<and> (of_char (hd e) :: nat) < of_char (last c)
           then (butlast c @ tl e) # es
           else c # e # es))"

text \<open>
  The token of a bracket expression with body \<open>stuff\<close>.  After the translation the
  chunks are joined by hyphens, so the body is empty only if there is one empty chunk.
\<close>

definition bracket_tok :: "string \<Rightarrow> tok" where
  "bracket_tok stuff =
     (let chunks = merge_chunks (close_chunks
                     (split_chunks stuff (if hd stuff = CHR ''!'' then 2 else 1)))
      in if chunks = [[]] then Never
         else if chunks = [''!''] then AnyChar
         else if chunks \<noteq> [] \<and> hd chunks \<noteq> [] \<and> hd (hd chunks) = CHR ''!''
           then CharSet True (tl (hd chunks) # tl chunks)
         else CharSet False chunks)"

text \<open>
  Search for the bracket that closes an expression: \<open>scan_close s\<close> is the number of
  characters of \<open>s\<close> before the first \<^verbatim>\<open>]\<close>, if there is one.
\<close>

fun scan_close :: "string \<Rightarrow> nat option" where
  "scan_close [] = None"
| "scan_close (c # cs) =
     (if c = CHR '']'' then Some 0
      else (case scan_close cs of None \<Rightarrow> None | Some m \<Rightarrow> Some (Suc m)))"

lemma scan_close_less: "scan_close s = Some m \<Longrightarrow> m < length s"
  by (induction s arbitrary: m) (auto split: if_splits option.splits)

text \<open>
  \<open>bracket_end s\<close> is the index \<open>j\<close> of the closing bracket in the text \<open>s\<close> after an
  opening bracket: a leading \<^verbatim>\<open>!\<close> and a \<^verbatim>\<open>]\<close> right after it are stepped over first.
\<close>

definition bracket_end :: "string \<Rightarrow> nat option" where
  "bracket_end s =
     (let j1 = (if s \<noteq> [] \<and> hd s = CHR ''!'' then 1 else 0);
          j2 = (if j1 < length s \<and> s ! j1 = CHR '']'' then Suc j1 else j1)
      in (case scan_close (drop j2 s) of None \<Rightarrow> None | Some m \<Rightarrow> Some (j2 + m)))"

lemma bracket_end_less: "bracket_end s = Some j \<Longrightarrow> j < length s"
  by (auto simp: bracket_end_def Let_def split: option.splits if_splits
           dest!: scan_close_less)

function translate :: "string \<Rightarrow> tok list" where
  "translate [] = []"
| "translate (c # cs) =
     (if c = CHR ''*'' then Star # translate cs
      else if c = CHR ''?'' then AnyChar # translate cs
      else if c = CHR ''['' then
        (case bracket_end cs of
           None \<Rightarrow> Lit CHR ''['' # translate cs
         | Some j \<Rightarrow> bracket_tok (take j cs) # translate (drop (Suc j) cs))
      else Lit c # translate cs)"
  by pat_completeness auto
termination
  by (relation "measure length") (auto dest: bracket_end_less)

text \<open>Membership of a character in a bracket expression given by its chunks.\<close>

fun in_ranges :: "char \<Rightarrow> string list \<Rightarrow> bool" where
  "in_ranges x [] = False"
| "in_ranges x [c] = False"
| "in_ranges x (c # d # ds) =
     ((c \<noteq> [] \<and> d \<noteq> [] \<and> (of_char (last c) :: nat) \<le> of_char x
         \<and> (of_char x :: nat) \<le> of_char (hd d))
      \<or> in_ranges x (d # ds))"

definition in_set :: "char \<Rightarrow> string list \<Rightarrow> bool" where
  "in_set x chunks = (list_ex (\<lambda>c. x \<in> set c) chunks \<or> in_ranges x chunks)"

text \<open>The whole string must match the whole token list.\<close>

fun match_toks :: "tok list \<Rightarrow> string \<Rightarrow> bool" where
  "match_toks [] s = (s = [])"
| "match_toks (Star # ts) [] = match_toks ts []"
| "match_toks (Star # ts) (x # xs) = (match_toks ts (x # xs) \<or> match_toks (Star # ts) xs)"
| "match_toks (AnyChar # ts) [] = False"
| "match_toks (AnyChar # ts) (x # xs) = match_toks ts xs"
| "match_toks (Lit c # ts) [] = False"
| "match_toks (Lit c # ts) (x # xs) = (x = c \<and> match_toks ts xs)"
| "match_toks (Never # ts) s = False"
| "match_toks (CharSet neg chunks # ts) [] = False"
| "match_toks (CharSet neg chunks # ts) (x # xs) =
     ((in_set x chunks \<noteq> neg) \<and> match_toks ts xs)"

definition fnmatch :: "string \<Rightarrow> string \<Rightarrow> bool" where
  "fnmatch name pat = match_toks (translate pat) name"

section \<open>Paths\<close>

text \<open>
  A path is the list of its components below the source root (for a destination path:
  below the backup root).  \<open>path_name\<close> is \<^verbatim>\<open>Path.name\<close> and \<open>path_str\<close> is
  \<^verbatim>\<open>str(path.relative_to(self.source_dir))\<close>; the root itself has the empty name
  and is written as a dot.
\<close>

type_synonym path = "string list"

definition path_name :: "path \<Rightarrow> string" where
  "path_name p = (if p = [] then [] else last p)"

fun join_path :: "path \<Rightarrow> string" where
  "join_path [] = []"
| "join_path [a] = a"
| "join_path (a # b # bs) = a @ ''/'' @ join_path (b # bs)"

definition path_str :: "path \<Rightarrow> string" where
  "path_str p = (if p = [] then ''.'' else join_path p)"

fun startswith :: "string \<Rightarrow> string \<Rightarrow> bool" where
  "startswith s [] = True"
| "startswith [] (p # ps) = False"
| "startswith (c # cs) (p # ps) = (c = p \<and> startswith cs ps)"

section \<open>The rule set\<close>

text \<open>
  The four collections are attributes of the \<^verbatim>\<open>MigrationPrep\<close> object, set by its
  constructor.  The two Python sets are listed in the order of the source; they are
  only used for membership and for a loop that returns at the first hit.
\<close>

record migration_prep =
  skip_dirs :: "string list"
  skip_patterns :: "string list"
  keep_patterns :: "string list"
  keep_dotfiles :: "string list"

definition default_skip_dirs :: "string list" where
  "default_skip_dirs =
     [''__pycache__'', ''.pytest_cache'', ''.mypy_cache'', ''.tox'',
      ''node_modules'', ''.npm'', ''.yarn'', ''dist'', ''build'', ''target'',
      ''.venv'', ''venv'', ''env'', ''.env'', ''virtualenv'', ''.git'', ''.svn'',
      ''.hg'', ''.bzr'', ''.Rproj.user'', ''.ropeproject'', ''cmake-build-debug'',
      ''cmake-build-release'', ''.gradle'', ''.m2'', ''.ivy2'', ''.cargo/registry'',
      ''.cargo/git'', ''zig-cache'', ''zig-out'', ''.stack-work'', ''_build'',
      ''deps'', ''_deps'', ''.elixir_ls'', ''.mix'', ''coverage'', ''.coverage'',
      ''.nyc_output'', ''logs'', ''*.log'', ''tmp'', ''temp'', ''.tmp'', ''.temp'']"

definition default_skip_patterns :: "string list" where
  "default_skip_patterns =
     [''*.pyc'', ''*.pyo'', ''*.pyd'', ''*.so'', ''*.dll'', ''*.dylib'', ''*.o'',
      ''*.obj'', ''*.class'', ''*.jar'', ''*.war'', ''*.beam'', ''*.plt'', ''*.exe'',
      ''*.app'', ''*.dmg'', ''*.pkg'', ''*.deb'', ''*.rpm'', ''*.zip'', ''*.tar.gz'',
      ''*.tar.bz2'', ''*.7z'', ''*.rar'', ''*.swp'', ''*.swo'', ''*~'',
      ''.DS_Store'', ''Thumbs.db'', ''*.tmp'', ''*.temp'', ''*.cache'', ''*.log'',
      ''core'', ''core.*'', ''*.core'', ''*.lock'', ''package-lock.json'',
      ''yarn.lock'', ''pnpm-lock.yaml'', ''*.min.js'', ''*.min.css'', ''*.map'',
      ''*.min.js.map'', ''*.min.css.map'']"

definition default_keep_patterns :: "string list" where
  "default_keep_patterns =
     [''.*rc'', ''.*profile'', ''.*_profile'', ''.*_history'', ''.env*'',
      ''.environment'', ''environment.*'', ''*.conf'', ''*.config'', ''config.*'',
      ''configuration.*'', ''.gitconfig'', ''.gitignore_global'', ''.ssh/config'',
      ''requirements.txt'', ''Pipfile'', ''pyproject.toml'', ''package.json'',
      ''Cargo.toml'', ''mix.exs'', ''build.zig'', ''Makefile'', ''CMakeLists.txt'',
      ''Dockerfile*'', ''flake.nix'', ''shell.nix'', ''default.nix'', ''*.md'',
      ''*.rst'', ''*.txt'', ''LICENSE*'', ''README*'', ''tsconfig.json'',
      ''webpack.config.js'', ''vite.config.*'']"

definition default_keep_dotfiles :: "string list" where
  "default_keep_dotfiles =
     [''.ssh'', ''.gnupg'', ''.gitconfig'', ''.vimrc'', ''.nvim'', ''.bashrc'',
      ''.zshrc'', ''.profile'', ''.bash_profile'', ''.tmux.conf'', ''.screenrc'',
      ''.inputrc'', ''.config'', ''.local/share'', ''.mozilla'', ''.thunderbird'',
      ''.aws'', ''.docker'', ''.kube'', ''.terraform.d'', ''.cargo/config.toml'',
      ''.rustup/settings.toml'', ''.npmrc'', ''.yarnrc'', ''.pip'', ''.poetry'',
      ''.mix'', ''.hex'', ''.iex.exs'', ''.emacs.d'', ''.doom.d'', ''.spacemacs.d'']"

definition init :: migration_prep where
  "init = \<lparr> skip_dirs = default_skip_dirs, skip_patterns = default_skip_patterns,
            keep_patterns = default_keep_patterns, keep_dotfiles = default_keep_dotfiles \<rparr>"

section \<open>Reading a directory's gitignore file\<close>

text \<open>
  What \<open>load_gitignore_patterns\<close> finds in a directory: no file; a file whose lines
  are all read; a file that exists but whose opening or reading raises, after the
  given lines were already read (none when the opening fails); or a probe
  \<^verbatim>\<open>exists()\<close> that raises itself, which the function does not catch.
\<close>

datatype gitignore_file =
    Absent
  | Readable "string list"
  | Unreadable "string list"
  | ProbeRaises

text \<open>\<^verbatim>\<open>str.strip\<close> removes the white space of Python at both ends.\<close>

definition is_space :: "char \<Rightarrow> bool" where
  "is_space c = (let n = (of_char c :: nat) in
     (9 \<le> n \<and> n \<le> 13) \<or> (28 \<le> n \<and> n \<le> 32) \<or> n = 133 \<or> n = 160)"

definition strip :: "string \<Rightarrow> string" where
  "strip s = rev (dropWhile is_space (rev (dropWhile is_space s)))"

fun add_lines :: "string list \<Rightarrow> string list \<Rightarrow> string list" where
  "add_lines patterns [] = patterns"
| "add_lines patterns (l # ls) =
     (let line = strip l in
      if line \<noteq> [] \<and> \<not> startswith line ''#''
      then add_lines (List.insert line patterns) ls
      else add_lines patterns ls)"

datatype log_level = INFO | WARNING | ERROR

datatype log_msg =
    CouldNotReadGitignore path
  | FailedToCopy path path
  | MaximumRecursionDepth path
  | SkippingDirectory path
  | PermissionDenied path
  | ErrorProcessing path
  | ErrorScanningDirectory path
  | DryRunMode
  | DryRunCompleted
  | StartingBackup
  | CouldNotCreateBackupInfo
  | BackupFailed
  | SummaryRule
  | SummaryTitle
  | FilesCopied int
  | FilesSkipped int
  | Errors int
  | SizeCopied int
  | Duration
  | BackupLocation

text \<open>
  The result is the pattern set and the lines logged; \<open>None\<close> when the probe raises
  and the exception leaves the function.
\<close>

definition load_gitignore_patterns ::
  "gitignore_file \<Rightarrow> path \<Rightarrow> (string list \<times> (log_level \<times> log_msg) list) option" where
  "load_gitignore_patterns g directory =
     (case g of
        Absent \<Rightarrow> Some ([], [])
      | Readable ls \<Rightarrow> Some (add_lines [] ls, [])
      | Unreadable ls \<Rightarrow> Some (add_lines [] ls, [(WARNING, CouldNotReadGitignore directory)])
      | ProbeRaises \<Rightarrow> None)"

section \<open>The classifier\<close>

definition should_skip_file :: "migration_prep \<Rightarrow> path \<Rightarrow> string list \<Rightarrow> bool" where
  "should_skip_file mp file_path gitignore_patterns =
     (let filename = path_name file_path;
          relative_path = path_str file_path
      in if list_ex (\<lambda>pattern. fnmatch filename pattern) (keep_patterns mp) then False
         else if list_ex (\<lambda>pattern. fnmatch relative_path pattern \<or> fnmatch filename pattern)
                   gitignore_patterns then True
         else if list_ex (\<lambda>pattern. fnmatch filename pattern) (skip_patterns mp) then True
         else False)"

definition should_skip_directory :: "migration_prep \<Rightarrow> path \<Rightarrow> bool" where
  "should_skip_directory mp dir_path =
     (let dirname = path_name dir_path;
          relative_path = path_str dir_path
      in if list_ex (\<lambda>keep_pattern. startswith relative_path keep_pattern
                        \<or> dirname = keep_pattern) (keep_dotfiles mp) then False
         else if dirname \<in> set (skip_dirs mp) then True
         else if list_ex (\<lambda>pattern. fnmatch dirname pattern) (skip_patterns mp) then True
         else False)"

section \<open>The source tree\<close>

text \<open>
  What the traversal can observe of a directory entry.  A regular file has a size and
  an outcome of the three steps of \<open>copy_file_safely\<close>; a symbolic link is described
  by what it resolves to; \<open>Special\<close> is an entry that is neither a link, a regular file
  nor a directory; for \<open>Unstatable\<close> the first test on the entry raises, a
  \<^verbatim>\<open>PermissionError\<close> when the flag is set and another exception otherwise.
  A directory has its gitignore file, a flag telling whether \<^verbatim>\<open>iterdir\<close> succeeds, and
  its entries in the order of enumeration.  The tree is read, not changed, during a run.
\<close>

datatype copy_outcome = CopyOk | CopyRaises | StatRaises

datatype entry =
    RegularFile int copy_outcome
  | Directory dir
  | SymlinkToFile int copy_outcome
  | SymlinkToDir dir
  | SymlinkToOther
  | SymlinkDangling
  | Special
  | Unstatable bool
and dir =
    Dir (gitignore: gitignore_file) (listable: bool) (entries: "(string \<times> entry) list")

section \<open>Statistics and effects\<close>

text \<open>
  The four counters of \<^verbatim>\<open>self.stats\<close>, the lines logged so far, and the files written
  to the destination as pairs of source and destination path.
\<close>

record run_state =
  copied :: int
  skipped :: int
  errors :: int
  size_copied :: int
  log :: "(log_level \<times> log_msg) list"
  copies :: "(path \<times> path) list"

definition initial_state :: run_state where
  "initial_state = \<lparr> copied = 0, skipped = 0, errors = 0, size_copied = 0, log = [], copies = [] \<rparr>"

definition logger :: "log_level \<Rightarrow> log_msg \<Rightarrow> run_state \<Rightarrow> run_state" where
  "logger lvl msg st = st\<lparr> log := log st @ [(lvl, msg)] \<rparr>"

text \<open>
  \<open>copy_file_safely\<close>: when creating the parent or copying raises, nothing is counted
  but the error; when the copy succeeds and reading the size raises, the file is
  already counted as copied.
\<close>

definition copy_file_safely ::
  "path \<Rightarrow> path \<Rightarrow> int \<Rightarrow> copy_outcome \<Rightarrow> run_state \<Rightarrow> bool \<times> run_state" where
  "copy_file_safely src dst sz outcome st =
     (case outcome of
        CopyRaises \<Rightarrow>
          (False, (logger ERROR (FailedToCopy src dst) st)\<lparr> errors := errors st + 1 \<rparr>)
      | StatRaises \<Rightarrow>
          (let st1 = st\<lparr> copies := copies st @ [(src, dst)], copied := copied st + 1 \<rparr>
           in (False, (logger ERROR (FailedToCopy src dst) st1)\<lparr> errors := errors st1 + 1 \<rparr>))
      | CopyOk \<Rightarrow>
          (True, st\<lparr> copies := copies st @ [(src, dst)], copied := copied st + 1,
                     size_copied := size_copied st + sz \<rparr>))"

text \<open>The branch shared by regular files and links to regular files.\<close>

definition backup_file ::
  "migration_prep \<Rightarrow> string list \<Rightarrow> path \<Rightarrow> path \<Rightarrow> int \<Rightarrow> copy_outcome \<Rightarrow> run_state \<Rightarrow> run_state" where
  "backup_file mp gitignore_patterns item target_path sz outcome st =
     (if \<not> should_skip_file mp item gitignore_patterns
      then snd (copy_file_safely item target_path sz outcome st)
      else st\<lparr> skipped := skipped st + 1 \<rparr>)"

section \<open>The traversal\<close>

lemma size_dir_entries: "size d = Suc (size_list (size_prod (\<lambda>_. 0) size) (entries d))"
  by (cases d) simp

text \<open>
  \<open>backup_directory\<close> is the method of the source; \<open>backup_items\<close> is its loop over the
  entries and \<open>backup_item\<close> the body of the loop with its two exception handlers.
\<close>

function backup_directory ::
    "migration_prep \<Rightarrow> dir \<Rightarrow> path \<Rightarrow> path \<Rightarrow> nat \<Rightarrow> run_state \<Rightarrow> run_state"
  and backup_items ::
    "migration_prep \<Rightarrow> string list \<Rightarrow> (string \<times> entry) list \<Rightarrow> path \<Rightarrow> path \<Rightarrow> nat
       \<Rightarrow> run_state \<Rightarrow> run_state"
  and backup_item ::
    "migration_prep \<Rightarrow> string list \<Rightarrow> string \<Rightarrow> entry \<Rightarrow> path \<Rightarrow> path \<Rightarrow> nat
       \<Rightarrow> run_state \<Rightarrow> run_state"
where
  "backup_directory mp d src_dir dst_dir level st =
     (if level > 10 then logger WARNING (MaximumRecursionDepth src_dir) st
      else
        (case load_gitignore_patterns (gitignore d) src_dir of
           None \<Rightarrow> (logger ERROR (ErrorScanningDirectory src_dir) st)\<lparr> errors := errors st + 1 \<rparr>
         | Some (gitignore_patterns, warnings) \<Rightarrow>
             (let st1 = st\<lparr> log := log st @ warnings \<rparr> in
              if \<not> listable d
              then (logger ERROR (ErrorScanningDirectory src_dir) st1)\<lparr> errors := errors st1 + 1 \<rparr>
              else backup_items mp gitignore_patterns (entries d) src_dir dst_dir level st1)))"
| "backup_items mp gitignore_patterns [] src_dir dst_dir level st = st"
| "backup_items mp gitignore_patterns ((name, e) # items) src_dir dst_dir level st =
     backup_items mp gitignore_patterns items src_dir dst_dir level
       (backup_item mp gitignore_patterns name e src_dir dst_dir level st)"
| "backup_item mp gitignore_patterns name (SymlinkToFile sz outcome) src_dir dst_dir level st =
     backup_file mp gitignore_patterns (src_dir @ [name]) (dst_dir @ [name]) sz outcome st"
| "backup_item mp gitignore_patterns name (SymlinkToDir d) src_dir dst_dir level st = st"
| "backup_item mp gitignore_patterns name SymlinkToOther src_dir dst_dir level st = st"
| "backup_item mp gitignore_patterns name SymlinkDangling src_dir dst_dir level st = st"
| "backup_item mp gitignore_patterns name (RegularFile sz outcome) src_dir dst_dir level st =
     backup_file mp gitignore_patterns (src_dir @ [name]) (dst_dir @ [name]) sz outcome st"
| "backup_item mp gitignore_patterns name (Directory d) src_dir dst_dir level st =
     (if \<not> should_skip_directory mp (src_dir @ [name])
      then backup_directory mp d (src_dir @ [name]) (dst_dir @ [name]) (level + 1) st
      else (logger INFO (SkippingDirectory (src_dir @ [name])) st)\<lparr> skipped := skipped st + 1 \<rparr>)"
| "backup_item mp gitignore_patterns name Special src_dir dst_dir level st = st"
| "backup_item mp gitignore_patterns name (Unstatable perm) src_dir dst_dir level st =
     (if perm
      then (logger WARNING (PermissionDenied (src_dir @ [name])) st)\<lparr> errors := errors st + 1 \<rparr>
      else (logger ERROR (ErrorProcessing (src_dir @ [name])) st)\<lparr> errors := errors st + 1 \<rparr>)"
  by pat_completeness auto
termination
  by (relation "measure (\<lambda>x. case x of
         Inl (mp, d, src, dst, lvl, st) \<Rightarrow> 2 * size d
       | Inr (Inl (mp, gi, items, src, dst, lvl, st)) \<Rightarrow>
           2 * size_list (size_prod (\<lambda>_. 0) size) items + 1
       | Inr (Inr (mp, gi, name, e, src, dst, lvl, st)) \<Rightarrow> 2 * size e)")
     (auto simp: size_dir_entries)

section \<open>The run and the command line\<close>

text \<open>
  The world a run sees: whether the two paths of the command line can be expanded and
  resolved (the constructor raises otherwise), the source tree (\<open>None\<close> when the
  source path does not exist), whether the backup directory can be created, and
  whether the info file can be written.  A source path that is a file behaves like a
  directory that has no gitignore file and cannot be listed.
\<close>

record world =
  paths_resolvable :: bool
  source :: "dir option"
  backup_dir_creatable :: bool
  info_writable :: bool

datatype exn = ValueError | OSError

definition create_backup_info :: "world \<Rightarrow> run_state \<Rightarrow> run_state" where
  "create_backup_info w st =
     (if info_writable w then st else logger ERROR CouldNotCreateBackupInfo st)"

definition print_summary :: "run_state \<Rightarrow> run_state" where
  "print_summary st =
     st\<lparr> log := log st @
       [(INFO, SummaryRule), (INFO, SummaryTitle), (INFO, SummaryRule),
        (INFO, FilesCopied (copied st)), (INFO, FilesSkipped (skipped st)),
        (INFO, Errors (errors st)), (INFO, SizeCopied (size_copied st)),
        (INFO, Duration), (INFO, BackupLocation)] \<rparr>"

text \<open>The result is the exception that leaves \<open>run_backup\<close>, if any, and the state reached.\<close>

definition run_backup :: "migration_prep \<Rightarrow> world \<Rightarrow> run_state \<Rightarrow> exn option \<times> run_state" where
  "run_backup mp w st =
     (let st1 = logger INFO StartingBackup st in
      case source w of
        None \<Rightarrow> (Some ValueError, st1)
      | Some root \<Rightarrow>
          (if \<not> backup_dir_creatable w then (Some OSError, st1)
           else (None, print_summary (create_backup_info w
                         (backup_directory mp root [] [] 0 st1)))))"

record args =
  dry_run :: bool
  verbose :: bool

text \<open>
  \<open>main\<close> returns the exit status and the final state.  The verbose flag only lowers
  the logging threshold, and no line is logged below \<open>INFO\<close>.
\<close>

definition main :: "args \<Rightarrow> world \<Rightarrow> int \<times> run_state" where
  "main a w =
     (let st0 = (if dry_run a then logger INFO DryRunMode initial_state else initial_state)
      in if \<not> paths_resolvable w then (1, logger ERROR BackupFailed st0)
         else
           (let backup = init
            in if \<not> dry_run a
               then (case run_backup backup w st0 of
                       (None, st) \<Rightarrow> (0, st)
                     | (Some e, st) \<Rightarrow> (1, logger ERROR BackupFailed st))
               else (0, logger INFO DryRunCompleted st0)))"

section \<open>Example trees\<close>

text \<open>A project with a manifest and a build directory.\<close>

definition build_tree :: dir where
  "build_tree = Dir Absent True
     [(''config.json'', RegularFile 10 CopyOk),
      (''build'', Directory (Dir Absent True [(''output.o'', RegularFile 7 CopyOk)]))]"

text \<open>A chain of \<open>n\<close> nested directories below a directory, one file in each.\<close>

fun chain :: "nat \<Rightarrow> dir" where
  "chain 0 = Dir Absent True [(''notes.org'', RegularFile 1 CopyOk)]"
| "chain (Suc n) = Dir Absent True
     [(''notes.org'', RegularFile 1 CopyOk), (''d'', Directory (chain n))]"

text \<open>A deep chain next to a plain file, which is enumerated after it.\<close>

definition deep_tree :: dir where
  "deep_tree = Dir Absent True
     [(''deep'', Directory (chain 11)), (''after.org'', RegularFile 2 CopyOk)]"

text \<open>
  The entries of a directory with a gitignore file: the file itself, a file of the
  directory, and a subdirectory holding a key file.
\<close>

definition scoped_items :: "(string \<times> entry) list" where
  "scoped_items =
     [(''.gitignore'', RegularFile 20 CopyOk),
      (''notes.org'', RegularFile 4 CopyOk),
      (''sub'', Directory (Dir Absent True [(''secret.key'', RegularFile 3 CopyOk)]))]"

text \<open>A configuration directory that holds a package directory.\<close>

definition config_tree :: dir where
  "config_tree = Dir Absent True
     [(''.config'', Directory (Dir Absent True
        [(''node_modules'', Directory (Dir Absent True
           [(''index.js'', RegularFile 1 CopyOk)]))]))]"

text \<open>
  A directory whose gitignore file is not valid UTF-8: reading it raises at once, while
  the file itself can be copied like any other.
\<close>

definition unreadable_tree :: dir where
  "unreadable_tree = Dir (Unreadable []) True
     [(''.gitignore'', RegularFile 2 CopyOk), (''notes.org'', RegularFile 4 CopyOk)]"

text \<open>
  A directory that may be listed but not searched: the existence check on its gitignore
  file raises.  It stands in a tree next to a plain file.
\<close>

definition locked_dir :: dir where
  "locked_dir = Dir ProbeRaises True [(''inner.org'', Unstatable True)]"

definition locked_tree :: dir where
  "locked_tree = Dir Absent True
     [(''locked'', Directory locked_dir), (''z.org'', RegularFile 3 CopyOk)]"

text \<open>A directory with an entry that cannot be examined and a file that cannot be copied.\<close>

definition faulty_items :: "(string \<times> entry) list" where
  "faulty_items =
     [(''locked'', Unstatable True),
      (''a.org'', RegularFile 5 CopyRaises),
      (''b.org'', RegularFile 6 CopyOk)]"

text \<open>The entries on which the traversal calls \<open>should_skip_file\<close>.\<close>

fun classified_as_file :: "entry \<Rightarrow> bool" where
  "classified_as_file (RegularFile sz outcome) = True"
| "classified_as_file (SymlinkToFile sz outcome) = True"
| "classified_as_file e = False"

text \<open>
  Two sibling directories: \<^verbatim>\<open>a\<close> with the gitignore file \<open>g\<close>, a key file and a
  child directory, and \<^verbatim>\<open>b\<close> with a key file.
\<close>

definition sibling_items :: "gitignore_file \<Rightarrow> (string \<times> entry) list" where
  "sibling_items g =
     [(''a'', Directory (Dir g True
        [(''.gitignore'', RegularFile 6 CopyOk),
         (''x.key'', RegularFile 1 CopyOk),
         (''c'', Directory (Dir Absent True [(''z.key'', RegularFile 1 CopyOk)]))])),
      (''b'', Directory (Dir Absent True [(''y.key'', RegularFile 1 CopyOk)]))]"

text \<open>
  A state extended by what a later part of the run adds to it: the counters are added
  and the logged lines and written files are appended.
\<close>

definition combine :: "run_state \<Rightarrow> run_state \<Rightarrow> run_state" where
  "combine st delta =
     \<lparr> copied = copied st + copied delta, skipped = skipped st + skipped delta,
       errors = errors st + errors delta, size_copied = size_copied st + size_copied delta,
       log = log st @ log delta, copies = copies st @ copies delta \<rparr>"

section \<open>Properties of the traversal loop\<close>

text \<open>The loop handles a list of entries piece by piece, threading the state through.\<close>

lemma backup_items_append:
  "backup_items mp gi (xs @ ys) src dst lvl st =
     backup_items mp gi ys src dst lvl (backup_items mp gi xs src dst lvl st)"
  by (induction xs arbitrary: st) auto

text \<open>
  The pattern set matters to an entry only through \<open>should_skip_file\<close>, and hence only
  for the entries classified as files.
\<close>

lemma backup_item_patterns:
  "(classified_as_file e \<Longrightarrow>
      should_skip_file mp (src @ [name]) gi = should_skip_file mp (src @ [name]) gi')
   \<Longrightarrow> backup_item mp gi name e src dst lvl st = backup_item mp gi' name e src dst lvl st"
  by (cases e) (simp_all add: backup_file_def)

lemma backup_items_patterns:
  "(\<And>name e. (name, e) \<in> set es \<Longrightarrow> classified_as_file e \<Longrightarrow>
      should_skip_file mp (src @ [name]) gi = should_skip_file mp (src @ [name]) gi')
   \<Longrightarrow> backup_items mp gi es src dst lvl st = backup_items mp gi' es src dst lvl st"
proof (induction es arbitrary: st)
  case Nil
  show ?case by simp
next
  case (Cons x es)
  obtain name e where x: "x = (name, e)" by (cases x)
  have step: "backup_item mp gi name e src dst lvl st = backup_item mp gi' name e src dst lvl st"
  proof (rule backup_item_patterns)
    assume "classified_as_file e"
    then show "should_skip_file mp (src @ [name]) gi = should_skip_file mp (src @ [name]) gi'"
      using Cons.prems [of name e] by (simp add: x)
  qed
  have rest: "backup_items mp gi es src dst lvl s = backup_items mp gi' es src dst lvl s" for s
  proof (rule Cons.IH)
    fix n f
    assume "(n, f) \<in> set es" and "classified_as_file f"
    then show "should_skip_file mp (src @ [n]) gi = should_skip_file mp (src @ [n]) gi'"
      using Cons.prems [of n f] by simp
  qed
  show ?case by (simp add: x step rest)
qed

text \<open>
  Every part of the traversal acts on the state by adding to it: the result from any
  state is that state combined with the result from the initial state.
\<close>

lemma combine_initial: "combine st initial_state = st"
  by (simp add: combine_def initial_state_def)

lemma combine_assoc: "combine (combine a b) c = combine a (combine b c)"
  by (simp add: combine_def)

lemma backup_file_delta:
  "backup_file mp gi item target sz outcome st
     = combine st (backup_file mp gi item target sz outcome initial_state)"
  by (cases outcome)
     (simp_all add: backup_file_def copy_file_safely_def logger_def combine_def initial_state_def)

lemma backup_items_delta:
  assumes "\<And>name e s. (name, e) \<in> set es \<Longrightarrow>
     backup_item mp gi name e src dst lvl s
       = combine s (backup_item mp gi name e src dst lvl initial_state)"
  shows "backup_items mp gi es src dst lvl s
       = combine s (backup_items mp gi es src dst lvl initial_state)"
  using assms
proof (induction es arbitrary: s)
  case Nil
  show ?case by (simp add: combine_initial)
next
  case (Cons x es)
  obtain name e where x: "x = (name, e)" by (cases x)
  have item: "backup_item mp gi name e src dst lvl t
       = combine t (backup_item mp gi name e src dst lvl initial_state)" for t
  proof (rule Cons.prems)
    show "(name, e) \<in> set (x # es)" by (simp add: x)
  qed
  have rest: "backup_items mp gi es src dst lvl t
       = combine t (backup_items mp gi es src dst lvl initial_state)" for t
  proof (rule Cons.IH)
    fix n f u
    assume "(n, f) \<in> set es"
    then have "(n, f) \<in> set (x # es)" by simp
    then show "backup_item mp gi n f src dst lvl u
       = combine u (backup_item mp gi n f src dst lvl initial_state)"
      by (rule Cons.prems)
  qed
  have 1: "backup_items mp gi (x # es) src dst lvl s
      = backup_items mp gi es src dst lvl (backup_item mp gi name e src dst lvl s)"
    by (simp add: x)
  have 2: "backup_items mp gi (x # es) src dst lvl initial_state
      = backup_items mp gi es src dst lvl (backup_item mp gi name e src dst lvl initial_state)"
    by (simp add: x)
  show ?case
    by (metis 1 2 item rest combine_assoc)
qed

lemma traversal_delta:
  "\<forall>mp gi name src dst lvl s. backup_item mp gi name e src dst lvl s
        = combine s (backup_item mp gi name e src dst lvl initial_state)"
  "\<forall>mp src dst lvl s. backup_directory mp d src dst lvl s
        = combine s (backup_directory mp d src dst lvl initial_state)"
proof (induction e and d)
  case (RegularFile sz outcome)
  show ?case by (simp, intro allI, rule backup_file_delta)
next
  case (SymlinkToFile sz outcome)
  show ?case by (simp, intro allI, rule backup_file_delta)
next
  case (SymlinkToDir x)
  show ?case by (simp add: combine_initial)
next
  case SymlinkToOther
  show ?case by (simp add: combine_initial)
next
  case SymlinkDangling
  show ?case by (simp add: combine_initial)
next
  case Special
  show ?case by (simp add: combine_initial)
next
  case (Unstatable perm)
  show ?case by (simp add: logger_def combine_def initial_state_def)
next
  case (Directory x)
  show ?case
  proof (intro allI)
    fix mp gi name src dst lvl s
    show "backup_item mp gi name (Directory x) src dst lvl s
        = combine s (backup_item mp gi name (Directory x) src dst lvl initial_state)"
    proof (cases "should_skip_directory mp (src @ [name])")
      case True
      then show ?thesis by (simp add: logger_def combine_def initial_state_def)
    next
      case False
      have "backup_item mp gi name (Directory x) src dst lvl s
          = backup_directory mp x (src @ [name]) (dst @ [name]) (lvl + 1) s"
        using False by simp
      also have "\<dots> = combine s (backup_directory mp x (src @ [name]) (dst @ [name]) (lvl + 1)
                                   initial_state)"
        using Directory by blast
      also have "backup_directory mp x (src @ [name]) (dst @ [name]) (lvl + 1) initial_state
          = backup_item mp gi name (Directory x) src dst lvl initial_state"
        using False by simp
      finally show ?thesis .
    qed
  qed
next
  case (Dir g l es)
  have item: "backup_item mp gi name e src dst lvl s
       = combine s (backup_item mp gi name e src dst lvl initial_state)"
    if "(name, e) \<in> set es" for mp gi name e src dst lvl s
  proof -
    have "e \<in> Basic_BNFs.snds (name, e)" by simp
    from Dir [OF that this] show ?thesis by blast
  qed
  have items: "backup_items mp gi es src dst lvl s
       = combine s (backup_items mp gi es src dst lvl initial_state)" for mp gi src dst lvl s
    by (rule backup_items_delta) (rule item)
  show ?case
  proof (intro allI)
    fix mp src dst lvl s
    show "backup_directory mp (Dir g l es) src dst lvl s
        = combine s (backup_directory mp (Dir g l es) src dst lvl initial_state)"
    proof (cases "load_gitignore_patterns g src")
      case None
      then show ?thesis
        by (simp add: logger_def combine_def initial_state_def)
    next
      case (Some r)
      obtain gi w where r: "r = (gi, w)" by (cases r)
      show ?thesis
      proof (cases "lvl \<le> 10 \<and> l")
        case False
        then show ?thesis using Some r
          by (auto simp: logger_def combine_def initial_state_def)
      next
        case True
        have a: "backup_directory mp (Dir g l es) src dst lvl t
              = combine (t\<lparr> log := log t @ w \<rparr>)
                  (backup_items mp gi es src dst lvl initial_state)" for t
          using True Some r items [of mp gi src dst lvl "t\<lparr> log := log t @ w \<rparr>"]
          by simp
        show ?thesis
          unfolding a [of s] a [of initial_state]
          by (simp add: combine_def initial_state_def)
      qed
    qed
  qed
qed

section \<open>The classifier's order of rules\<close>

text \<open>
  Claim C1.  \<open>should_skip_file\<close> decides in a fixed order: a keep pattern matching the
  bare file name gives \<open>False\<close>; otherwise a gitignore pattern matching the relative
  path or the bare name gives \<open>True\<close>; otherwise a skip pattern matching the bare name
  gives \<open>True\<close>; otherwise \<open>False\<close>.  In particular a file whose name matches a keep
  pattern is never skipped, whatever else matches.  The result depends on the pattern
  lists only as sets.
\<close>

theorem should_skip_file_precedence:
  "should_skip_file mp p gi =
     (if (\<exists>pat\<in>set (keep_patterns mp). fnmatch (path_name p) pat) then False
      else if (\<exists>pat\<in>set gi. fnmatch (path_str p) pat \<or> fnmatch (path_name p) pat) then True
      else if (\<exists>pat\<in>set (skip_patterns mp). fnmatch (path_name p) pat) then True
      else False)
   \<and> ((\<exists>pat\<in>set (keep_patterns mp). fnmatch (path_name p) pat)
        \<longrightarrow> \<not> should_skip_file mp p gi)"
  by (simp add: should_skip_file_def list_ex_iff)

text \<open>
  The file \<^verbatim>\<open>docs/README.log\<close> matches the keep pattern \<^verbatim>\<open>README*\<close>, the gitignore
  pattern \<^verbatim>\<open>*.log\<close> and the skip pattern \<^verbatim>\<open>*.log\<close>, and is kept.
\<close>

theorem should_skip_file_precedence_witness:
  "(\<exists>pat\<in>set (keep_patterns init). fnmatch (path_name [''docs'', ''README.log'']) pat)
   \<and> (\<exists>pat\<in>set [''*.log'']. fnmatch (path_name [''docs'', ''README.log'']) pat)
   \<and> (\<exists>pat\<in>set (skip_patterns init). fnmatch (path_name [''docs'', ''README.log'']) pat)
   \<and> \<not> should_skip_file init [''docs'', ''README.log''] [''*.log'']"
proof -
  have k: "\<exists>pat\<in>set (keep_patterns init). fnmatch (path_name [''docs'', ''README.log'']) pat"
    by code_simp
  have g: "\<exists>pat\<in>set [''*.log'']. fnmatch (path_name [''docs'', ''README.log'']) pat"
    by code_simp
  have s: "\<exists>pat\<in>set (skip_patterns init). fnmatch (path_name [''docs'', ''README.log'']) pat"
    by code_simp
  from k should_skip_file_precedence [of init "[''docs'', ''README.log'']" "[''*.log'']"]
  have "\<not> should_skip_file init [''docs'', ''README.log''] [''*.log'']"
    by blast
  with k g s show ?thesis by blast
qed

text \<open>
  Claim C2.  \<open>should_skip_directory\<close> returns \<open>False\<close> whenever the relative path
  starts with a keep-dotfile entry or the bare name equals one, even if the name is in
  the skip directories or matches a skip pattern; only otherwise an exact skip
  directory name gives \<open>True\<close>, then a skip pattern matching the name gives \<open>True\<close>,
  and else the result is \<open>False\<close>.
\<close>

theorem should_skip_directory_precedence:
  "should_skip_directory mp p =
     (if (\<exists>k\<in>set (keep_dotfiles mp). startswith (path_str p) k \<or> path_name p = k) then False
      else if path_name p \<in> set (skip_dirs mp) then True
      else if (\<exists>pat\<in>set (skip_patterns mp). fnmatch (path_name p) pat) then True
      else False)
   \<and> ((\<exists>k\<in>set (keep_dotfiles mp). startswith (path_str p) k \<or> path_name p = k)
        \<longrightarrow> \<not> should_skip_directory mp p)"
  by (auto simp: should_skip_directory_def list_ex_iff)

text \<open>
  Below \<^verbatim>\<open>.ssh\<close>, a directory named \<^verbatim>\<open>build\<close> (a skip directory) and one named
  \<^verbatim>\<open>old.tmp\<close> (matching a skip pattern) are both kept.
\<close>

theorem should_skip_directory_precedence_witness:
  "(\<exists>k\<in>set (keep_dotfiles init). startswith (path_str [''.ssh'', ''build'']) k
        \<or> path_name [''.ssh'', ''build''] = k)
   \<and> path_name [''.ssh'', ''build''] \<in> set (skip_dirs init)
   \<and> \<not> should_skip_directory init [''.ssh'', ''build'']
   \<and> (\<exists>k\<in>set (keep_dotfiles init). startswith (path_str [''.ssh'', ''old.tmp'']) k
        \<or> path_name [''.ssh'', ''old.tmp''] = k)
   \<and> (\<exists>pat\<in>set (skip_patterns init). fnmatch (path_name [''.ssh'', ''old.tmp'']) pat)
   \<and> \<not> should_skip_directory init [''.ssh'', ''old.tmp'']"
proof -
  have k1: "\<exists>k\<in>set (keep_dotfiles init). startswith (path_str [''.ssh'', ''build'']) k
        \<or> path_name [''.ssh'', ''build''] = k"
    by code_simp
  have s1: "path_name [''.ssh'', ''build''] \<in> set (skip_dirs init)"
    by code_simp
  have k2: "\<exists>k\<in>set (keep_dotfiles init). startswith (path_str [''.ssh'', ''old.tmp'']) k
        \<or> path_name [''.ssh'', ''old.tmp''] = k"
    by code_simp
  have s2: "\<exists>pat\<in>set (skip_patterns init). fnmatch (path_name [''.ssh'', ''old.tmp'']) pat"
    by code_simp
  from k1 should_skip_directory_precedence [of init "[''.ssh'', ''build'']"]
  have r1: "\<not> should_skip_directory init [''.ssh'', ''build'']" by blast
  from k2 should_skip_directory_precedence [of init "[''.ssh'', ''old.tmp'']"]
  have r2: "\<not> should_skip_directory init [''.ssh'', ''old.tmp'']" by blast
  from k1 s1 r1 k2 s2 r2 show ?thesis by blast
qed

section \<open>Pruning\<close>

text \<open>
  A directory named as a skip directory is not always skipped: below \<^verbatim>\<open>.config\<close> the
  directory \<^verbatim>\<open>node_modules\<close> is kept, entered, and its file is copied.
\<close>

theorem skip_dirs_not_always_pruned:
  "path_name [''.config'', ''node_modules''] \<in> set (skip_dirs init)
   \<and> \<not> should_skip_directory init [''.config'', ''node_modules'']
   \<and> copies (backup_directory init config_tree [] [] 0 initial_state)
       = [([''.config'', ''node_modules'', ''index.js''], [''.config'', ''node_modules'', ''index.js''])]
   \<and> skipped (backup_directory init config_tree [] [] 0 initial_state) = 0"
  by code_simp

text \<open>
  Claim C3, amended.  A directory whose name is in the skip directories is skipped
  provided no keep-dotfile entry applies to it.  Whenever a directory is skipped, the
  result does not depend on what the directory holds (its gitignore file, whether it
  can be listed, its entries): the skipped counter grows by exactly one, and the
  other counters and the files written stay as they were.
\<close>

theorem skipped_directory_pruned:
  "((\<not> (\<exists>k\<in>set (keep_dotfiles mp). startswith (path_str p) k \<or> path_name p = k)
      \<and> path_name p \<in> set (skip_dirs mp)) \<longrightarrow> should_skip_directory mp p)
   \<and> (should_skip_directory mp (src @ [name]) \<longrightarrow>
         backup_item mp gi name (Directory d) src dst lvl st
           = backup_item mp gi name (Directory d') src dst lvl st
         \<and> skipped (backup_item mp gi name (Directory d) src dst lvl st) = skipped st + 1
         \<and> copied (backup_item mp gi name (Directory d) src dst lvl st) = copied st
         \<and> errors (backup_item mp gi name (Directory d) src dst lvl st) = errors st
         \<and> size_copied (backup_item mp gi name (Directory d) src dst lvl st) = size_copied st
         \<and> copies (backup_item mp gi name (Directory d) src dst lvl st) = copies st)"
  by (auto simp: should_skip_directory_def list_ex_iff logger_def)

text \<open>
  The directory \<^verbatim>\<open>build\<close> at the root: the run over \<open>build_tree\<close> copies
  \<^verbatim>\<open>config.json\<close> only and counts one skipped entry.
\<close>

theorem skipped_directory_pruned_witness:
  "\<not> (\<exists>k\<in>set (keep_dotfiles init). startswith (path_str [''build'']) k \<or> path_name [''build''] = k)
   \<and> path_name [''build''] \<in> set (skip_dirs init)
   \<and> should_skip_directory init ([] @ [''build''])
   \<and> backup_item init [] ''build'' (Directory (Dir Absent True [(''output.o'', RegularFile 7 CopyOk)]))
         [] [] 0 initial_state
       = backup_item init [] ''build'' (Directory (Dir (Unreadable []) False [])) [] [] 0 initial_state
   \<and> skipped (backup_item init [] ''build''
         (Directory (Dir Absent True [(''output.o'', RegularFile 7 CopyOk)])) [] [] 0 initial_state)
       = skipped initial_state + 1
   \<and> copied (backup_directory init build_tree [] [] 0 initial_state) = 1
   \<and> skipped (backup_directory init build_tree [] [] 0 initial_state) = 1
   \<and> copies (backup_directory init build_tree [] [] 0 initial_state)
       = [([''config.json''], [''config.json''])]"
proof -
  have k: "\<not> (\<exists>k\<in>set (keep_dotfiles init). startswith (path_str [''build'']) k
              \<or> path_name [''build''] = k)"
    by code_simp
  have m: "path_name [''build''] \<in> set (skip_dirs init)"
    by code_simp
  note t = skipped_directory_pruned [of init "[''build'']" "[]" "''build''" "[]"
      "Dir Absent True [(''output.o'', RegularFile 7 CopyOk)]" "[]" 0 initial_state
      "Dir (Unreadable []) False []"]
  from t k m have s: "should_skip_directory init ([] @ [''build''])"
    by simp
  from t s have e: "backup_item init [] ''build''
        (Directory (Dir Absent True [(''output.o'', RegularFile 7 CopyOk)])) [] [] 0 initial_state
      = backup_item init [] ''build'' (Directory (Dir (Unreadable []) False [])) [] [] 0 initial_state"
    and c: "skipped (backup_item init [] ''build''
         (Directory (Dir Absent True [(''output.o'', RegularFile 7 CopyOk)])) [] [] 0 initial_state)
       = skipped initial_state + 1"
    by blast+
  have r: "copied (backup_directory init build_tree [] [] 0 initial_state) = 1
     \<and> skipped (backup_directory init build_tree [] [] 0 initial_state) = 1
     \<and> copies (backup_directory init build_tree [] [] 0 initial_state)
         = [([''config.json''], [''config.json''])]"
    by code_simp
  from k m s e c r show ?thesis by blast
qed

section \<open>Scope of a gitignore file\<close>

text \<open>
  Claim C4.  The patterns of a directory's gitignore file are used only to classify the
  file entries of that directory itself.  A subdirectory is handled in the same way
  under any two pattern sets of its parent; replacing the lines of a directory's
  gitignore file changes the outcome of its traversal only if it changes the decision
  of \<open>should_skip_file\<close> on one of the directory's own file entries; and what the run
  adds for the entries enumerated after a directory \<^verbatim>\<open>a\<close>, its siblings, is the same
  whatever the gitignore file of \<^verbatim>\<open>a\<close> is.  Every directory loads its own file:
  \<open>backup_directory\<close> takes no pattern set as argument.
\<close>

theorem gitignore_scope:
  "backup_item mp gi name (Directory c) src dst lvl st
     = backup_item mp gi' name (Directory c) src dst lvl st
   \<and> ((\<forall>(n, e)\<in>set es. classified_as_file e \<longrightarrow>
          should_skip_file mp (src @ [n]) (add_lines [] ls)
            = should_skip_file mp (src @ [n]) (add_lines [] ls'))
        \<longrightarrow> backup_directory mp (Dir (Readable ls) l es) src dst lvl st
              = backup_directory mp (Dir (Readable ls') l es) src dst lvl st)
   \<and> backup_items mp gi (xs @ (a, Directory (Dir g l es)) # ys) src dst lvl st
       = combine (backup_items mp gi (xs @ [(a, Directory (Dir g l es))]) src dst lvl st)
           (backup_items mp gi ys src dst lvl initial_state)"
proof (intro conjI impI)
  show "backup_item mp gi name (Directory c) src dst lvl st
     = backup_item mp gi' name (Directory c) src dst lvl st"
    by (rule backup_item_patterns) simp
next
  assume h: "\<forall>(n, e)\<in>set es. classified_as_file e \<longrightarrow>
          should_skip_file mp (src @ [n]) (add_lines [] ls)
            = should_skip_file mp (src @ [n]) (add_lines [] ls')"
  have "\<And>s. backup_items mp (add_lines [] ls) es src dst lvl s
           = backup_items mp (add_lines [] ls') es src dst lvl s"
    by (rule backup_items_patterns) (use h in auto)
  then show "backup_directory mp (Dir (Readable ls) l es) src dst lvl st
              = backup_directory mp (Dir (Readable ls') l es) src dst lvl st"
    by (simp add: load_gitignore_patterns_def)
next
  have "backup_items mp gi (xs @ (a, Directory (Dir g l es)) # ys) src dst lvl st
      = backup_items mp gi ys src dst lvl
          (backup_items mp gi (xs @ [(a, Directory (Dir g l es))]) src dst lvl st)"
    by (simp add: backup_items_append)
  also have "\<dots> = combine (backup_items mp gi (xs @ [(a, Directory (Dir g l es))]) src dst lvl st)
           (backup_items mp gi ys src dst lvl initial_state)"
    by (rule backup_items_delta) (rule traversal_delta [rule_format])
  finally show "backup_items mp gi (xs @ (a, Directory (Dir g l es)) # ys) src dst lvl st
       = combine (backup_items mp gi (xs @ [(a, Directory (Dir g l es))]) src dst lvl st)
           (backup_items mp gi ys src dst lvl initial_state)" .
qed

text \<open>
  Adding \<^verbatim>\<open>*.key\<close> and \<^verbatim>\<open>sub/secret.key\<close> to the gitignore file of a directory leaves
  \<^verbatim>\<open>sub/secret.key\<close> copied.  With \<^verbatim>\<open>*.key\<close> in the gitignore file of \<^verbatim>\<open>a\<close>, the
  file \<^verbatim>\<open>a/x.key\<close> is skipped, and \<^verbatim>\<open>a/c/z.key\<close> and \<^verbatim>\<open>b/y.key\<close> are copied.
\<close>

theorem gitignore_scope_witness:
  "list_all (\<lambda>(n, e). \<not> classified_as_file e \<or>
          should_skip_file init ([] @ [n]) (add_lines [] [])
            = should_skip_file init ([] @ [n]) (add_lines [] [''*.key'', ''sub/secret.key'']))
      scoped_items
   \<and> backup_directory init (Dir (Readable []) True scoped_items) [] [] 0 initial_state
       = backup_directory init (Dir (Readable [''*.key'', ''sub/secret.key'']) True scoped_items)
           [] [] 0 initial_state
   \<and> copies (backup_directory init
         (Dir (Readable [''*.key'', ''sub/secret.key'']) True scoped_items) [] [] 0 initial_state)
       = [([''.gitignore''], [''.gitignore'']), ([''notes.org''], [''notes.org'']),
          ([''sub'', ''secret.key''], [''sub'', ''secret.key''])]
   \<and> copies (backup_items init [] (sibling_items (Readable [''*.key''])) [] [] 0 initial_state)
       = [([''a'', ''.gitignore''], [''a'', ''.gitignore'']),
          ([''a'', ''c'', ''z.key''], [''a'', ''c'', ''z.key'']),
          ([''b'', ''y.key''], [''b'', ''y.key''])]
   \<and> skipped (backup_items init [] (sibling_items (Readable [''*.key''])) [] [] 0 initial_state) = 1"
proof -
  have h: "list_all (\<lambda>(n, e). \<not> classified_as_file e \<or>
          should_skip_file init ([] @ [n]) (add_lines [] [])
            = should_skip_file init ([] @ [n]) (add_lines [] [''*.key'', ''sub/secret.key'']))
      scoped_items"
    by code_simp
  then have h': "\<forall>(n, e)\<in>set scoped_items. classified_as_file e \<longrightarrow>
          should_skip_file init ([] @ [n]) (add_lines [] [])
            = should_skip_file init ([] @ [n]) (add_lines [] [''*.key'', ''sub/secret.key''])"
    by (auto simp: list_all_iff)
  from h' gitignore_scope [where mp = init and src = "[]" and es = scoped_items and ls = "[]"
      and ls' = "[''*.key'', ''sub/secret.key'']" and l = True and dst = "[]" and lvl = 0
      and st = initial_state]
  have e: "backup_directory init (Dir (Readable []) True scoped_items) [] [] 0 initial_state
       = backup_directory init (Dir (Readable [''*.key'', ''sub/secret.key'']) True scoped_items)
           [] [] 0 initial_state"
    by blast
  have c: "copies (backup_directory init
         (Dir (Readable [''*.key'', ''sub/secret.key'']) True scoped_items) [] [] 0 initial_state)
       = [([''.gitignore''], [''.gitignore'']), ([''notes.org''], [''notes.org'']),
          ([''sub'', ''secret.key''], [''sub'', ''secret.key''])]"
    by code_simp
  have d: "copies (backup_items init [] (sibling_items (Readable [''*.key''])) [] [] 0 initial_state)
       = [([''a'', ''.gitignore''], [''a'', ''.gitignore'']),
          ([''a'', ''c'', ''z.key''], [''a'', ''c'', ''z.key'']),
          ([''b'', ''y.key''], [''b'', ''y.key''])]
   \<and> skipped (backup_items init [] (sibling_items (Readable [''*.key''])) [] [] 0 initial_state) = 1"
    by code_simp
  from h e c d show ?thesis by blast
qed

section \<open>The recursion ceiling\<close>

text \<open>
  Claim C5.  The root is visited at level 0 and every directory one level below its
  parent.  A directory visited at a level up to 10 is processed: its patterns are
  loaded and its entries are handled.  A visit at a level above 10 only logs a warning:
  whatever the directory holds, no counter changes (so no error is counted) and no
  file is written.  Hence a kept subdirectory met at level 9 is entered at level 10,
  and one met at level 10 is answered by the warning alone; the state is handed on to
  the entries that follow.
\<close>

theorem recursion_ceiling:
  "((level \<le> 10 \<and> load_gitignore_patterns (gitignore d) src = Some (gi, w) \<and> listable d)
      \<longrightarrow> backup_directory mp d src dst level st
            = backup_items mp gi (entries d) src dst level (st\<lparr> log := log st @ w \<rparr>))
   \<and> (level > 10 \<longrightarrow>
         backup_directory mp d src dst level st
           = st\<lparr> log := log st @ [(WARNING, MaximumRecursionDepth src)] \<rparr>)
   \<and> (\<not> should_skip_directory mp (src @ [name]) \<longrightarrow>
         backup_item mp gi name (Directory d) src dst 9 st
           = backup_directory mp d (src @ [name]) (dst @ [name]) 10 st
         \<and> backup_item mp gi name (Directory d) src dst 10 st
           = st\<lparr> log := log st @ [(WARNING, MaximumRecursionDepth (src @ [name]))] \<rparr>)"
  by (simp add: logger_def)

text \<open>
  In \<open>deep_tree\<close> the files of the directories at levels 1 to 10 and the file
  enumerated after the chain are copied, the directory at level 11 gives the one
  warning, and no error is counted.
\<close>

theorem recursion_ceiling_witness:
  "(10::nat) \<le> 10
   \<and> load_gitignore_patterns (gitignore (chain 0)) [''deep''] = Some ([], [])
   \<and> listable (chain 0)
   \<and> backup_directory init (chain 0) [''deep''] [''deep''] 10 initial_state
       = backup_items init [] (entries (chain 0)) [''deep''] [''deep''] 10
           (initial_state\<lparr> log := log initial_state @ [] \<rparr>)
   \<and> copies (backup_directory init (chain 0) [''deep''] [''deep''] 10 initial_state)
       = [([''deep'', ''notes.org''], [''deep'', ''notes.org''])]
   \<and> (11::nat) > 10
   \<and> backup_directory init (chain 0) [''deep''] [''deep''] 11 initial_state
       = initial_state\<lparr> log := log initial_state @ [(WARNING, MaximumRecursionDepth [''deep''])] \<rparr>
   \<and> copied (backup_directory init deep_tree [] [] 0 initial_state) = 11
   \<and> errors (backup_directory init deep_tree [] [] 0 initial_state) = 0
   \<and> log (backup_directory init deep_tree [] [] 0 initial_state)
       = [(WARNING, MaximumRecursionDepth
            [''deep'', ''d'', ''d'', ''d'', ''d'', ''d'', ''d'', ''d'', ''d'', ''d'', ''d''])]
   \<and> last (copies (backup_directory init deep_tree [] [] 0 initial_state))
       = ([''after.org''], [''after.org''])"
proof -
  have h1: "(10::nat) \<le> 10" by simp
  have h2: "load_gitignore_patterns (gitignore (chain 0)) [''deep''] = Some ([], [])"
    by code_simp
  have h3: "listable (chain 0)" by code_simp
  have h4: "(11::nat) > 10" by simp
  note t10 = recursion_ceiling [where level = 10 and d = "chain 0" and src = "[''deep'']"
      and gi = "[]" and w = "[]" and mp = init and dst = "[''deep'']" and st = initial_state]
  note t11 = recursion_ceiling [where level = 11 and d = "chain 0" and src = "[''deep'']"
      and mp = init and dst = "[''deep'']" and st = initial_state]
  from t10 h1 h2 h3
  have a: "backup_directory init (chain 0) [''deep''] [''deep''] 10 initial_state
       = backup_items init [] (entries (chain 0)) [''deep''] [''deep''] 10
           (initial_state\<lparr> log := log initial_state @ [] \<rparr>)"
    by blast
  from t11 h4
  have b: "backup_directory init (chain 0) [''deep''] [''deep''] 11 initial_state
       = initial_state\<lparr> log := log initial_state @ [(WARNING, MaximumRecursionDepth [''deep''])] \<rparr>"
    by blast
  have c: "copies (backup_directory init (chain 0) [''deep''] [''deep''] 10 initial_state)
       = [([''deep'', ''notes.org''], [''deep'', ''notes.org''])]"
    by code_simp
  have d: "copied (backup_directory init deep_tree [] [] 0 initial_state) = 11
   \<and> errors (backup_directory init deep_tree [] [] 0 initial_state) = 0
   \<and> log (backup_directory init deep_tree [] [] 0 initial_state)
       = [(WARNING, MaximumRecursionDepth
            [''deep'', ''d'', ''d'', ''d'', ''d'', ''d'', ''d'', ''d'', ''d'', ''d'', ''d''])]
   \<and> last (copies (backup_directory init deep_tree [] [] 0 initial_state))
       = ([''after.org''], [''after.org''])"
    by code_simp
  from h1 h2 h3 a c h4 b d show ?thesis by blast
qed

section \<open>An unreadable gitignore file\<close>

text \<open>
  A gitignore file that exists and cannot be read costs a warning only: the error
  counter stays at zero and the files of the directory are copied.
\<close>

theorem unreadable_gitignore_not_counted:
  "errors (backup_directory init unreadable_tree [] [] 0 initial_state) = 0
   \<and> copies (backup_directory init unreadable_tree [] [] 0 initial_state)
       = [([''.gitignore''], [''.gitignore'']), ([''notes.org''], [''notes.org''])]
   \<and> log (backup_directory init unreadable_tree [] [] 0 initial_state)
       = [(WARNING, CouldNotReadGitignore [])]"
  by code_simp

text \<open>
  Claim C6, amended.  A failure on the gitignore file of a directory is caught and
  logged, and never ends the run.  When opening or reading the file fails, the
  failure is caught in \<open>load_gitignore_patterns\<close> and logged as a warning; the error
  counter is not changed and nothing is aborted: the entries of the directory are
  still traversed (without any pattern when nothing was read).  Only when the
  existence check on the file raises, outside that handler, is the failure counted
  as an error and the directory abandoned, whatever it holds; the state is handed
  on to the rest of the run.
\<close>

theorem unreadable_gitignore_tolerated:
  "((level \<le> 10 \<and> gitignore d = Unreadable [] \<and> listable d) \<longrightarrow>
      backup_directory mp d src dst level st
        = backup_items mp [] (entries d) src dst level
            (st\<lparr> log := log st @ [(WARNING, CouldNotReadGitignore src)] \<rparr>))
   \<and> ((level \<le> 10 \<and> gitignore d = Unreadable ls \<and> listable d) \<longrightarrow>
      (\<exists>gi. backup_directory mp d src dst level st
        = backup_items mp gi (entries d) src dst level
            (st\<lparr> log := log st @ [(WARNING, CouldNotReadGitignore src)] \<rparr>)))
   \<and> ((level \<le> 10 \<and> gitignore d = ProbeRaises) \<longrightarrow>
      backup_directory mp d src dst level st
        = st\<lparr> log := log st @ [(ERROR, ErrorScanningDirectory src)], errors := errors st + 1 \<rparr>)"
proof (intro conjI impI)
  assume "level \<le> 10 \<and> gitignore d = Unreadable [] \<and> listable d"
  then show "backup_directory mp d src dst level st
        = backup_items mp [] (entries d) src dst level
            (st\<lparr> log := log st @ [(WARNING, CouldNotReadGitignore src)] \<rparr>)"
    by (simp add: load_gitignore_patterns_def)
next
  assume "level \<le> 10 \<and> gitignore d = Unreadable ls \<and> listable d"
  then have "backup_directory mp d src dst level st
        = backup_items mp (add_lines [] ls) (entries d) src dst level
            (st\<lparr> log := log st @ [(WARNING, CouldNotReadGitignore src)] \<rparr>)"
    by (simp add: load_gitignore_patterns_def)
  then show "\<exists>gi. backup_directory mp d src dst level st
        = backup_items mp gi (entries d) src dst level
            (st\<lparr> log := log st @ [(WARNING, CouldNotReadGitignore src)] \<rparr>)"
    by (rule exI)
next
  assume "level \<le> 10 \<and> gitignore d = ProbeRaises"
  then show "backup_directory mp d src dst level st
        = st\<lparr> log := log st @ [(ERROR, ErrorScanningDirectory src)], errors := errors st + 1 \<rparr>"
    by (simp add: load_gitignore_patterns_def logger_def)
qed

text \<open>
  The directory \<open>unreadable_tree\<close> at the root, and \<open>locked_dir\<close> below the root of
  \<open>locked_tree\<close>: the run counts one error for it and copies the file next to it.
\<close>

theorem unreadable_gitignore_tolerated_witness:
  "(0::nat) \<le> 10 \<and> gitignore unreadable_tree = Unreadable [] \<and> listable unreadable_tree
   \<and> backup_directory init unreadable_tree [] [] 0 initial_state
       = backup_items init [] (entries unreadable_tree) [] [] 0
           (initial_state\<lparr> log := log initial_state @ [(WARNING, CouldNotReadGitignore [])] \<rparr>)
   \<and> (1::nat) \<le> 10 \<and> gitignore locked_dir = ProbeRaises
   \<and> backup_directory init locked_dir [''locked''] [''locked''] 1 initial_state
       = initial_state\<lparr> log := log initial_state @ [(ERROR, ErrorScanningDirectory [''locked''])],
                          errors := errors initial_state + 1 \<rparr>
   \<and> errors (backup_directory init locked_tree [] [] 0 initial_state) = 1
   \<and> copies (backup_directory init locked_tree [] [] 0 initial_state)
       = [([''z.org''], [''z.org''])]
   \<and> log (backup_directory init locked_tree [] [] 0 initial_state)
       = [(ERROR, ErrorScanningDirectory [''locked''])]"
proof -
  have h1: "(0::nat) \<le> 10" by simp
  have h2: "gitignore unreadable_tree = Unreadable []" by (simp add: unreadable_tree_def)
  have h3: "listable unreadable_tree" by (simp add: unreadable_tree_def)
  have h4: "(1::nat) \<le> 10" by simp
  have h5: "gitignore locked_dir = ProbeRaises" by (simp add: locked_dir_def)
  from h1 h2 h3 unreadable_gitignore_tolerated [where level = 0 and d = unreadable_tree
      and mp = init and src = "[]" and dst = "[]" and st = initial_state]
  have a: "backup_directory init unreadable_tree [] [] 0 initial_state
       = backup_items init [] (entries unreadable_tree) [] [] 0
           (initial_state\<lparr> log := log initial_state @ [(WARNING, CouldNotReadGitignore [])] \<rparr>)"
    by blast
  from h4 h5 unreadable_gitignore_tolerated [where level = 1 and d = locked_dir
      and mp = init and src = "[''locked'']" and dst = "[''locked'']" and st = initial_state]
  have b: "backup_directory init locked_dir [''locked''] [''locked''] 1 initial_state
       = initial_state\<lparr> log := log initial_state @ [(ERROR, ErrorScanningDirectory [''locked''])],
                          errors := errors initial_state + 1 \<rparr>"
    by blast
  have c: "errors (backup_directory init locked_tree [] [] 0 initial_state) = 1
   \<and> copies (backup_directory init locked_tree [] [] 0 initial_state)
       = [([''z.org''], [''z.org''])]
   \<and> log (backup_directory init locked_tree [] [] 0 initial_state)
       = [(ERROR, ErrorScanningDirectory [''locked''])]"
    by code_simp
  from h1 h2 h3 a h4 h5 b c show ?thesis by blast
qed

section \<open>The dry-run flag\<close>

text \<open>
  Claim C7.  With the dry-run flag the program performs no copy, and it reports nothing
  about the entries either: whatever the source tree holds, the run logs the same two
  lines and ends with status 0 without visiting the tree (or fails on the paths
  alone).  The help text of the flag promises to show what would be copied.
\<close>

theorem dry_run_reports_no_entry:
  "main \<lparr> dry_run = True, verbose = v \<rparr> w
     = (if paths_resolvable w
        then (0, initial_state\<lparr> log := [(INFO, DryRunMode), (INFO, DryRunCompleted)] \<rparr>)
        else (1, initial_state\<lparr> log := [(INFO, DryRunMode), (ERROR, BackupFailed)] \<rparr>))"
  by (simp add: main_def logger_def initial_state_def)

text \<open>
  For \<open>build_tree\<close> the dry run names neither \<^verbatim>\<open>config.json\<close> nor \<^verbatim>\<open>build\<close>, which a
  real run copies and skips.
\<close>

theorem dry_run_reports_no_entry_witness:
  "main \<lparr> dry_run = True, verbose = False \<rparr>
        \<lparr> paths_resolvable = True, source = Some build_tree, backup_dir_creatable = True,
          info_writable = True \<rparr>
     = (0, initial_state\<lparr> log := [(INFO, DryRunMode), (INFO, DryRunCompleted)] \<rparr>)
   \<and> copies (snd (main \<lparr> dry_run = False, verbose = False \<rparr>
        \<lparr> paths_resolvable = True, source = Some build_tree, backup_dir_creatable = True,
          info_writable = True \<rparr>))
       = [([''config.json''], [''config.json''])]
   \<and> (INFO, SkippingDirectory [''build'']) \<in> set (log (snd (main \<lparr> dry_run = False, verbose = False \<rparr>
        \<lparr> paths_resolvable = True, source = Some build_tree, backup_dir_creatable = True,
          info_writable = True \<rparr>)))"
proof -
  have a: "copies (snd (main \<lparr> dry_run = False, verbose = False \<rparr>
        \<lparr> paths_resolvable = True, source = Some build_tree, backup_dir_creatable = True,
          info_writable = True \<rparr>))
       = [([''config.json''], [''config.json''])]"
    by code_simp
  have b: "(INFO, SkippingDirectory [''build'']) \<in> set (log (snd (main \<lparr> dry_run = False, verbose = False \<rparr>
        \<lparr> paths_resolvable = True, source = Some build_tree, backup_dir_creatable = True,
          info_writable = True \<rparr>)))"
    by code_simp
  have c: "paths_resolvable \<lparr> paths_resolvable = True, source = Some build_tree,
      backup_dir_creatable = True, info_writable = True \<rparr>"
    by simp
  from c dry_run_reports_no_entry [of False
      "\<lparr> paths_resolvable = True, source = Some build_tree, backup_dir_creatable = True,
          info_writable = True \<rparr>"]
  have d: "main \<lparr> dry_run = True, verbose = False \<rparr>
        \<lparr> paths_resolvable = True, source = Some build_tree, backup_dir_creatable = True,
          info_writable = True \<rparr>
     = (0, initial_state\<lparr> log := [(INFO, DryRunMode), (INFO, DryRunCompleted)] \<rparr>)"
    by (simp only: if_True)
  from d a b show ?thesis by (intro conjI)
qed

section \<open>Errors on single entries\<close>

text \<open>
  Claim C8.  An error on one entry never ends the walk: after any entry, whatever its
  outcome, the loop goes on with the entries that follow, from the state that entry
  left.  An entry whose examination raises adds one to the error counter, and so
  does a kept file (or link to a file) whose copy fails.
\<close>

theorem entry_errors_do_not_abort:
  "backup_items mp gi (xs @ (name, e) # ys) src dst lvl st
     = backup_items mp gi ys src dst lvl
         (backup_item mp gi name e src dst lvl (backup_items mp gi xs src dst lvl st))
   \<and> errors (backup_item mp gi name (Unstatable perm) src dst lvl st) = errors st + 1
   \<and> ((outcome \<noteq> CopyOk \<and> \<not> should_skip_file mp (src @ [name]) gi) \<longrightarrow>
         errors (backup_item mp gi name (RegularFile sz outcome) src dst lvl st) = errors st + 1
         \<and> errors (backup_item mp gi name (SymlinkToFile sz outcome) src dst lvl st) = errors st + 1)"
  by (cases outcome)
     (simp_all add: backup_items_append backup_file_def copy_file_safely_def logger_def)

text \<open>
  In \<open>faulty_items\<close> the first two entries fail and are counted, and the third is
  copied.
\<close>

theorem entry_errors_do_not_abort_witness:
  "CopyRaises \<noteq> CopyOk \<and> \<not> should_skip_file init ([] @ [''a.org'']) []
   \<and> errors (backup_item init [] ''a.org'' (RegularFile 5 CopyRaises) [] [] 0 initial_state)
       = errors initial_state + 1
   \<and> errors (backup_items init [] faulty_items [] [] 0 initial_state) = 2
   \<and> copies (backup_items init [] faulty_items [] [] 0 initial_state)
       = [([''b.org''], [''b.org''])]
   \<and> log (backup_items init [] faulty_items [] [] 0 initial_state)
       = [(WARNING, PermissionDenied [''locked'']), (ERROR, FailedToCopy [''a.org''] [''a.org''])]"
proof -
  have h1: "CopyRaises \<noteq> CopyOk" by simp
  have h2: "\<not> should_skip_file init ([] @ [''a.org'']) []" by code_simp
  from h1 h2 entry_errors_do_not_abort [where outcome = CopyRaises and mp = init and src = "[]"
      and name = "''a.org''" and gi = "[]" and sz = 5 and dst = "[]" and lvl = 0
      and st = initial_state and xs = "[]" and ys = "[]" and e = Special]
  have a: "errors (backup_item init [] ''a.org'' (RegularFile 5 CopyRaises) [] [] 0 initial_state)
       = errors initial_state + 1"
    by blast
  have b: "errors (backup_items init [] faulty_items [] [] 0 initial_state) = 2
   \<and> copies (backup_items init [] faulty_items [] [] 0 initial_state)
       = [([''b.org''], [''b.org''])]
   \<and> log (backup_items init [] faulty_items [] [] 0 initial_state)
       = [(WARNING, PermissionDenied [''locked'']), (ERROR, FailedToCopy [''a.org''] [''a.org''])]"
    by code_simp
  from h1 h2 a b show ?thesis by blast
qed

section \<open>Skip directories are literal names\<close>

text \<open>
  Claim C9.  The skip-directory rule is membership of the bare name in the collection:
  with the other two rules switched off the decision is exactly that membership, and
  with them present it is that membership wherever neither of them applies.  An
  entry with a glob character or a separator is therefore met only by a directory
  bearing that very name.
\<close>

theorem skip_dirs_exact_name:
  "should_skip_directory (mp\<lparr> keep_dotfiles := [], skip_patterns := [] \<rparr>) p
     = (path_name p \<in> set (skip_dirs mp))
   \<and> ((\<not> (\<exists>k\<in>set (keep_dotfiles mp). startswith (path_str p) k \<or> path_name p = k)
         \<and> \<not> (\<exists>pat\<in>set (skip_patterns mp). fnmatch (path_name p) pat))
        \<longrightarrow> should_skip_directory mp p = (path_name p \<in> set (skip_dirs mp)))"
  by (auto simp: should_skip_directory_def list_ex_iff)

text \<open>
  The directory \<^verbatim>\<open>.cargo/registry\<close> is not skipped although its relative path is
  listed, because its bare name \<^verbatim>\<open>registry\<close> is not; and the entry \<^verbatim>\<open>*.log\<close> meets a
  directory named \<^verbatim>\<open>*.log\<close> but not one named \<^verbatim>\<open>x.log\<close>.
\<close>

theorem skip_dirs_exact_name_witness:
  "\<not> (\<exists>k\<in>set (keep_dotfiles init). startswith (path_str [''.cargo'', ''registry'']) k
          \<or> path_name [''.cargo'', ''registry''] = k)
   \<and> \<not> (\<exists>pat\<in>set (skip_patterns init). fnmatch (path_name [''.cargo'', ''registry'']) pat)
   \<and> path_str [''.cargo'', ''registry''] \<in> set (skip_dirs init)
   \<and> path_name [''.cargo'', ''registry''] \<notin> set (skip_dirs init)
   \<and> \<not> should_skip_directory init [''.cargo'', ''registry'']
   \<and> ''*.log'' \<in> set (skip_dirs init)
   \<and> fnmatch (path_name [''x.log'']) ''*.log''
   \<and> path_name [''x.log''] \<notin> set (skip_dirs init)
   \<and> \<not> should_skip_directory (init\<lparr> keep_dotfiles := [], skip_patterns := [] \<rparr>) [''x.log'']
   \<and> should_skip_directory (init\<lparr> keep_dotfiles := [], skip_patterns := [] \<rparr>) [''*.log'']"
proof -
  have h1: "\<not> (\<exists>k\<in>set (keep_dotfiles init). startswith (path_str [''.cargo'', ''registry'']) k
          \<or> path_name [''.cargo'', ''registry''] = k)"
    by code_simp
  have h2: "\<not> (\<exists>pat\<in>set (skip_patterns init). fnmatch (path_name [''.cargo'', ''registry'']) pat)"
    by code_simp
  have m1: "path_str [''.cargo'', ''registry''] \<in> set (skip_dirs init)" by code_simp
  have m2: "path_name [''.cargo'', ''registry''] \<notin> set (skip_dirs init)" by code_simp
  have m3: "''*.log'' \<in> set (skip_dirs init)" by code_simp
  have m4: "fnmatch (path_name [''x.log'']) ''*.log''" by code_simp
  have m5: "path_name [''x.log''] \<notin> set (skip_dirs init)" by code_simp
  have m6: "path_name [''*.log''] \<in> set (skip_dirs init)" by code_simp
  from h1 h2 m2 skip_dirs_exact_name [of init "[''.cargo'', ''registry'']"]
  have a: "\<not> should_skip_directory init [''.cargo'', ''registry'']" by blast
  from m5 skip_dirs_exact_name [of init "[''x.log'']"]
  have b: "\<not> should_skip_directory (init\<lparr> keep_dotfiles := [], skip_patterns := [] \<rparr>) [''x.log'']"
    by blast
  from m6 skip_dirs_exact_name [of init "[''*.log'']"]
  have c: "should_skip_directory (init\<lparr> keep_dotfiles := [], skip_patterns := [] \<rparr>) [''*.log'']"
    by blast
  from h1 h2 m1 m2 a m3 m4 m5 b c show ?thesis by blast
qed

section \<open>Links to directories and dangling links\<close>

text \<open>
  Claim C10.  A symbolic link to a directory and a symbolic link without target change
  nothing: the state after such an entry is the state before it, so all four counters
  are unchanged, the target directory is not entered, and a directory listing gives
  the same result with and without the link.
\<close>

theorem directory_links_invisible:
  "backup_item mp gi name (SymlinkToDir d) src dst lvl st = st
   \<and> backup_item mp gi name SymlinkDangling src dst lvl st = st
   \<and> backup_items mp gi (xs @ (name, SymlinkToDir d) # ys) src dst lvl st
       = backup_items mp gi (xs @ ys) src dst lvl st
   \<and> backup_items mp gi (xs @ (name, SymlinkDangling) # ys) src dst lvl st
       = backup_items mp gi (xs @ ys) src dst lvl st"
  by (simp add: backup_items_append)

text \<open>A file, a link to a directory and a dangling link: only the file is counted.\<close>

theorem directory_links_invisible_witness:
  "backup_items init [] ([(''notes.org'', RegularFile 4 CopyOk)]
       @ (''link'', SymlinkToDir build_tree) # [(''gone'', SymlinkDangling)]) [] [] 0 initial_state
     = backup_items init [] ([(''notes.org'', RegularFile 4 CopyOk)] @ []) [] [] 0 initial_state
   \<and> copied (backup_items init [] ([(''notes.org'', RegularFile 4 CopyOk)]
       @ (''link'', SymlinkToDir build_tree) # [(''gone'', SymlinkDangling)]) [] [] 0 initial_state) = 1
   \<and> skipped (backup_items init [] ([(''notes.org'', RegularFile 4 CopyOk)]
       @ (''link'', SymlinkToDir build_tree) # [(''gone'', SymlinkDangling)]) [] [] 0 initial_state) = 0"
proof -
  have a: "backup_items init [] ([(''notes.org'', RegularFile 4 CopyOk)]
       @ (''link'', SymlinkToDir build_tree) # [(''gone'', SymlinkDangling)]) [] [] 0 initial_state
     = backup_items init [] ([(''notes.org'', RegularFile 4 CopyOk)]
       @ [(''gone'', SymlinkDangling)]) [] [] 0 initial_state"
    using directory_links_invisible [of init "[]" "''link''" build_tree "[]" "[]" 0 initial_state
        "[(''notes.org'', RegularFile 4 CopyOk)]" "[(''gone'', SymlinkDangling)]"]
    by blast
  have b: "backup_items init [] ([(''notes.org'', RegularFile 4 CopyOk)]
       @ [(''gone'', SymlinkDangling)]) [] [] 0 initial_state
     = backup_items init [] ([(''notes.org'', RegularFile 4 CopyOk)] @ []) [] [] 0 initial_state"
    using directory_links_invisible [of init "[]" "''gone''" build_tree "[]" "[]" 0 initial_state
        "[(''notes.org'', RegularFile 4 CopyOk)]" "[]"]
    by simp
  have c: "copied (backup_items init [] ([(''notes.org'', RegularFile 4 CopyOk)] @ []) [] [] 0 initial_state) = 1
     \<and> skipped (backup_items init [] ([(''notes.org'', RegularFile 4 CopyOk)] @ []) [] [] 0 initial_state) = 0"
    by code_simp
  from a b c show ?thesis by simp
qed

end
